theory Spec2Isabelle
  imports Complex_Main "HOL-Library.List_Lexorder" "HOL-Library.Char_ord" "HOL-Library.Multiset"
begin

section \<open>Data model of report\_automation.py\<close>

text \<open>
  A cell of the \<open>order_date\<close> column. The loader leaves text (or a missing cell) there;
  \<open>pd.to_datetime\<close> turns it into a timestamp or into the missing value \<open>NaT\<close>.
  A timestamp is kept as its day number (days since 1970-01-01, a Thursday): the weekly
  resampling only looks at the calendar day.
\<close>

datatype date_cell = Text string | Stamp int | Missing

text \<open>
  One row of the DataFrame. \<open>None\<close> is pandas' missing value (NaN) of the column.
  Sales amounts are exact rationals: the rounding of binary floating point is not modelled.
\<close>

record order_rec =
  order_id :: "string option"
  order_date :: date_cell
  product :: "string option"
  sales :: "rat option"

type_synonym table = "order_rec list"

text \<open>
  What lies on disk: the input CSV, known by the rows \<open>pd.read_csv\<close> makes of it, a
  chart image, known by the series it draws, or the workbook. A worksheet holds the rows
  of the metrics table (the header in row 1, the data rows below) and the pictures, each
  with the cell it is anchored at, the file it comes from and its two scale factors.
\<close>

datatype chart =
    LineChart "(int \<times> rat) list"
  | BarChart "(string \<times> rat) list"

record picture =
  anchor :: "string \<times> nat"
  source :: string
  x_scale :: rat
  y_scale :: rat

record worksheet =
  header :: "string \<times> string"
  body :: "(string \<times> rat option) list"
  images :: "picture list"

datatype file_content = Csv table | Image chart | Workbook worksheet

text \<open>The exceptions the library calls of the script raise on the inputs modelled here.\<close>

datatype error =
    FileNotFoundError
  | TypeError
  | ValueError
  | IndexError
  | UnsupportedImageFormat

text \<open>
  The state the functions act on: the DataFrame objects, reached by reference (so that a
  mutation through one name is seen through every other name of the same object), the
  next unused reference, and the file system (directories and files by path).
\<close>

record world =
  frames :: "nat \<Rightarrow> table"
  next_ref :: nat
  dirs :: "string set"
  files :: "string \<rightharpoonup> file_content"

section \<open>clean\_data\<close>

text \<open>
  \<open>pd.to_datetime(..., errors='coerce')\<close> on one cell. The parser of date text is the
  library's; it is a parameter, \<open>None\<close> when the text is no date.
\<close>

fun to_datetime :: "(string \<Rightarrow> int option) \<Rightarrow> date_cell \<Rightarrow> date_cell" where
  "to_datetime parse (Text s) = (case parse s of Some d \<Rightarrow> Stamp d | None \<Rightarrow> Missing)"
| "to_datetime parse (Stamp d) = Stamp d"
| "to_datetime parse Missing = Missing"

definition coerce_date :: "(string \<Rightarrow> int option) \<Rightarrow> order_rec \<Rightarrow> order_rec" where
  "coerce_date parse r = r\<lparr>order_date := to_datetime parse (order_date r)\<rparr>"

text \<open>\<open>dropna(subset=['order_id', 'order_date', 'sales'])\<close> keeps a row when none of the three is missing.\<close>

definition notna_subset :: "order_rec \<Rightarrow> bool" where
  "notna_subset r = (order_id r \<noteq> None \<and> order_date r \<noteq> Missing \<and> sales r \<noteq> None)"

definition dropna :: "table \<Rightarrow> table" where
  "dropna t = filter notna_subset t"

text \<open>
  \<open>clean_data(df)\<close>: the assignment \<open>df['order_date'] = ...\<close> writes into the object the
  caller passed; \<open>df.dropna(...)\<close> builds a new DataFrame, which is returned.
\<close>

definition clean_data :: "(string \<Rightarrow> int option) \<Rightarrow> nat \<Rightarrow> world \<Rightarrow> nat \<times> world" where
  "clean_data parse df w =
     (let w1 = w\<lparr>frames := (frames w)(df := map (coerce_date parse) (frames w df))\<rparr>;
          cleaned = dropna (frames w1 df);
          new = next_ref w1
      in (new, w1\<lparr>frames := (frames w1)(new := cleaned), next_ref := Suc new\<rparr>))"

text \<open>The table \<open>clean_data\<close> returns, read from the resulting state.\<close>

definition cleaned_table :: "(string \<Rightarrow> int option) \<Rightarrow> nat \<Rightarrow> world \<Rightarrow> table" where
  "cleaned_table parse df w = (case clean_data parse df w of (new, w') \<Rightarrow> frames w' new)"

text \<open>A date cell that ends up as a timestamp.\<close>

fun parseable :: "(string \<Rightarrow> int option) \<Rightarrow> date_cell \<Rightarrow> bool" where
  "parseable parse (Text s) = (parse s \<noteq> None)"
| "parseable parse (Stamp d) = True"
| "parseable parse Missing = False"

fun is_stamp :: "date_cell \<Rightarrow> bool" where
  "is_stamp (Stamp d) = True"
| "is_stamp _ = False"

definition survives :: "(string \<Rightarrow> int option) \<Rightarrow> order_rec \<Rightarrow> bool" where
  "survives parse r = (order_id r \<noteq> None \<and> parseable parse (order_date r) \<and> sales r \<noteq> None)"


section \<open>calculate\_kpis\<close>

text \<open>The values of a column that are present; pandas' reductions skip the missing ones.\<close>

definition present :: "'a option list \<Rightarrow> 'a list" where
  "present xs = List.map_filter (\<lambda>x. x) xs"

text \<open>
  \<open>Series.sum()\<close>: the sum of the present values, 0 when there is none. The code adds
  in float64 or int64; the rational sum is the code's sum where no rounding or overflow
  occurs (see \<open>exact_amounts\<close> below), and the general statement about sums is made
  for such amounts only. The same holds for \<open>Series.mean()\<close> and the sums per group.
\<close>

definition series_sum :: "rat option list \<Rightarrow> rat" where
  "series_sum xs = sum_list (present xs)"

text \<open>\<open>Series.mean()\<close>: sum over count of the present values, NaN (\<open>None\<close>) when there is none.\<close>

definition series_mean :: "rat option list \<Rightarrow> rat option" where
  "series_mean xs =
     (if present xs = [] then None
      else Some (sum_list (present xs) / of_nat (length (present xs))))"

text \<open>\<open>Series.nunique()\<close>: the number of distinct present values.\<close>

definition nunique :: "string option list \<Rightarrow> nat" where
  "nunique xs = length (remdups (present xs))"

text \<open>
  \<open>df.groupby('product')['sales'].sum()\<close>. With the defaults \<open>sort=True\<close> and
  \<open>dropna=True\<close> the groups are the distinct present product labels in ascending order;
  a row without a product belongs to no group.
\<close>

definition group_keys :: "table \<Rightarrow> string list" where
  "group_keys t = sort (remdups (present (map product t)))"

definition group_sum :: "table \<Rightarrow> string \<Rightarrow> rat" where
  "group_sum t k = series_sum (map sales (filter (\<lambda>r. product r = Some k) t))"

definition groupby_product_sum :: "table \<Rightarrow> (string \<times> rat) list" where
  "groupby_product_sum t = map (\<lambda>k. (k, group_sum t k)) (group_keys t)"

text \<open>
  \<open>Series.sort_values(ascending=False)\<close>, as pandas computes it: the series is reversed,
  sorted ascending by value with the library's default sort, and the result reversed
  again. The default sort (numpy's quicksort) promises an ascending rearrangement and
  nothing about the order of equal values, so it is a parameter \<open>qs\<close> here; what is
  proved about the result is proved from that promise alone.
\<close>

definition sort_values_desc ::
  "((string \<times> rat) list \<Rightarrow> (string \<times> rat) list) \<Rightarrow> (string \<times> rat) list \<Rightarrow> (string \<times> rat) list" where
  "sort_values_desc qs s = rev (qs (rev s))"

record kpis =
  total_sales :: rat
  avg_order_value :: "rat option"
  num_orders :: nat
  sales_by_product :: "(string \<times> rat) list"

definition kpis_of :: "((string \<times> rat) list \<Rightarrow> (string \<times> rat) list) \<Rightarrow> table \<Rightarrow> kpis" where
  "kpis_of qs t =
     \<lparr>total_sales = series_sum (map sales t),
      avg_order_value = series_mean (map sales t),
      num_orders = nunique (map order_id t),
      sales_by_product = sort_values_desc qs (groupby_product_sum t)\<rparr>"

text \<open>\<open>calculate_kpis(df)\<close> only reads the DataFrame it is given.\<close>

definition calculate_kpis ::
  "((string \<times> rat) list \<Rightarrow> (string \<times> rat) list) \<Rightarrow> nat \<Rightarrow> world \<Rightarrow> kpis \<times> world" where
  "calculate_kpis qs df w = (kpis_of qs (frames w df), w)"

section \<open>generate\_visuals\<close>

text \<open>
  \<open>os.makedirs(path, exist_ok=True)\<close> raises on the empty path; otherwise the directory
  is there afterwards. \<open>plt.savefig\<close> writes the current figure. What else these two can
  meet in the operating system (a path that cannot be created or written) is not
  modelled.
\<close>

definition makedirs :: "string \<Rightarrow> world \<Rightarrow> error + world" where
  "makedirs path w =
     (if path = [] then Inl FileNotFoundError else Inr (w\<lparr>dirs := insert path (dirs w)\<rparr>))"

definition savefig :: "string \<Rightarrow> chart \<Rightarrow> world \<Rightarrow> world" where
  "savefig path c w = w\<lparr>files := (files w)(path \<mapsto> Image c)\<rparr>"

text \<open>\<open>os.path.join(a, b)\<close> of \<open>posixpath\<close>, for two components.\<close>

definition path_join :: "string \<Rightarrow> string \<Rightarrow> string" where
  "path_join a b =
     (if b \<noteq> [] \<and> hd b = CHR ''/'' then b
      else if a = [] \<or> last a = CHR ''/'' then a @ b
      else a @ ''/'' @ b)"

text \<open>\<open>df.set_index('order_date')\<close> returns a new DataFrame with the same rows.\<close>

definition set_index :: "nat \<Rightarrow> world \<Rightarrow> nat \<times> world" where
  "set_index df w =
     (next_ref w, w\<lparr>frames := (frames w)(next_ref w := frames w df), next_ref := Suc (next_ref w)\<rparr>)"

text \<open>
  \<open>.resample('W')['sales'].sum()\<close>. An index that still holds text is no datetime index,
  and resampling it raises \<open>TypeError\<close>. Otherwise: weeks end on Sunday (day 3 was the
  first Sunday after the epoch); the bins run from the week of the earliest timestamp to
  the week of the latest one, every week in between included, each labelled by its
  closing Sunday; rows without a timestamp fall into no bin.
\<close>

fun is_text :: "date_cell \<Rightarrow> bool" where
  "is_text (Text s) = True"
| "is_text _ = False"

definition week_end :: "int \<Rightarrow> int" where
  "week_end d = d + (3 - d) mod 7"

definition stamps :: "table \<Rightarrow> int list" where
  "stamps t = List.map_filter (\<lambda>r. case order_date r of Stamp d \<Rightarrow> Some d | _ \<Rightarrow> None) t"

definition in_week :: "int \<Rightarrow> order_rec \<Rightarrow> bool" where
  "in_week label r = (case order_date r of Stamp d \<Rightarrow> week_end d = label | _ \<Rightarrow> False)"

definition week_sum :: "table \<Rightarrow> int \<Rightarrow> rat" where
  "week_sum t label = series_sum (map sales (filter (in_week label) t))"

definition week_bins :: "table \<Rightarrow> (int \<times> rat) list" where
  "week_bins t =
     (case stamps t of
        [] \<Rightarrow> []
      | d # ds \<Rightarrow>
          (let first = week_end (fold min ds d);
               last = week_end (fold max ds d)
           in map (\<lambda>k. (first + 7 * int k, week_sum t (first + 7 * int k)))
                  [0..<Suc (nat ((last - first) div 7))]))"

definition resample_W_sum :: "table \<Rightarrow> error + (int \<times> rat) list" where
  "resample_W_sum t =
     (if list_ex (\<lambda>r. is_text (order_date r)) t then Inl TypeError else Inr (week_bins t))"

text \<open>
  \<open>Series.nlargest(n)\<close> with \<open>keep='first'\<close>: a stable ascending sort of the negated
  values (pandas asks for mergesort here), cut after \<open>n\<close> entries.
\<close>

definition nlargest :: "nat \<Rightarrow> (string \<times> rat) list \<Rightarrow> (string \<times> rat) list" where
  "nlargest n s = take n (sort_key (\<lambda>p. - snd p) s)"

text \<open>
  \<open>Series.plot\<close>: the line plot of a series without entries raises \<open>ValueError\<close> (the
  limits of the time axis are taken over no data), the bar plot of a series without
  entries raises \<open>IndexError\<close> (the position of the first bar is looked up).
\<close>

definition plot_line :: "(int \<times> rat) list \<Rightarrow> error + chart" where
  "plot_line s = (if s = [] then Inl ValueError else Inr (LineChart s))"

definition plot_bar :: "(string \<times> rat) list \<Rightarrow> error + chart" where
  "plot_bar s = (if s = [] then Inl IndexError else Inr (BarChart s))"

text \<open>
  \<open>generate_visuals(df, charts_dir)\<close>. The result is the exception raised or the list of
  paths returned, together with the state left behind (what was written before an
  exception stays written).
\<close>

definition generate_visuals :: "nat \<Rightarrow> string \<Rightarrow> world \<Rightarrow> (error + string list) \<times> world" where
  "generate_visuals df charts_dir w =
     (case makedirs charts_dir w of
        Inl e \<Rightarrow> (Inl e, w)
      | Inr w1 \<Rightarrow>
          (let (indexed, w2) = set_index df w1 in
           case resample_W_sum (frames w2 indexed) of
             Inl e \<Rightarrow> (Inl e, w2)
           | Inr weekly_sales \<Rightarrow>
               (case plot_line weekly_sales of
                  Inl e \<Rightarrow> (Inl e, w2)
                | Inr line \<Rightarrow>
                    (let timeseries_path = path_join charts_dir ''weekly_sales.png'';
                         w3 = savefig timeseries_path line w2;
                         top_products = nlargest 10 (groupby_product_sum (frames w3 df))
                     in case plot_bar top_products of
                          Inl e \<Rightarrow> (Inl e, w3)
                        | Inr bars \<Rightarrow>
                            (let top_products_path = path_join charts_dir ''top_products.png'';
                                 w4 = savefig top_products_path bars w3
                             in (Inr [timeseries_path, top_products_path], w4))))))"

section \<open>export\_to\_excel\<close>








section \<open>Example tables\<close>

text \<open>
  The scenario of the specification: three well-formed orders, one row without an
  order id, and one row whose date is no date. The parser knows the three dates.
\<close>

definition scenario_parse :: "string \<Rightarrow> int option" where
  "scenario_parse s =
     (if s = ''2024-01-01'' then Some 19723
      else if s = ''2024-01-02'' then Some 19724
      else if s = ''2024-01-08'' then Some 19730
      else None)"

definition scenario_raw :: table where
  "scenario_raw =
     [\<lparr>order_id = Some ''O1'', order_date = Text ''2024-01-01'', product = Some ''Widget'', sales = Some 100\<rparr>,
      \<lparr>order_id = Some ''O2'', order_date = Text ''2024-01-02'', product = Some ''Widget'', sales = Some 50\<rparr>,
      \<lparr>order_id = None, order_date = Text ''2024-01-02'', product = Some ''Widget'', sales = Some 7\<rparr>,
      \<lparr>order_id = Some ''O3'', order_date = Text ''2024-01-08'', product = Some ''Gadget'', sales = Some 200\<rparr>,
      \<lparr>order_id = Some ''O4'', order_date = Text ''yesterday'', product = Some ''Gadget'', sales = Some 9\<rparr>]"

definition scenario_clean :: table where
  "scenario_clean =
     [\<lparr>order_id = Some ''O1'', order_date = Stamp 19723, product = Some ''Widget'', sales = Some 100\<rparr>,
      \<lparr>order_id = Some ''O2'', order_date = Stamp 19724, product = Some ''Widget'', sales = Some 50\<rparr>,
      \<lparr>order_id = Some ''O3'', order_date = Stamp 19730, product = Some ''Gadget'', sales = Some 200\<rparr>]"

text \<open>A state in which object 0 is the loaded table and nothing is on disk yet.\<close>

definition world_of :: "table \<Rightarrow> world" where
  "world_of t = \<lparr>frames = (\<lambda>_. [])(0 := t), next_ref = 1, dirs = {}, files = Map.empty\<rparr>"


text \<open>Two cleaned rows that belong to one order.\<close>

definition shared_id_table :: table where
  "shared_id_table =
     [\<lparr>order_id = Some ''O1'', order_date = Stamp 19723, product = Some ''Widget'', sales = Some 100\<rparr>,
      \<lparr>order_id = Some ''O1'', order_date = Stamp 19723, product = Some ''Gadget'', sales = Some 50\<rparr>]"

text \<open>A cleaned table with a row that has no product.\<close>

definition no_product_table :: table where
  "no_product_table =
     [\<lparr>order_id = Some ''O1'', order_date = Stamp 19723, product = Some ''Widget'', sales = Some 100\<rparr>,
      \<lparr>order_id = Some ''O2'', order_date = Stamp 19724, product = None, sales = Some 50\<rparr>]"



section \<open>The ordering the specification describes\<close>




section \<open>Notions the statements use\<close>


text \<open>
  Amounts on which the sums of the code are exact in float64 and in int64 alike, in
  whichever order they are added: integers whose absolute values add up to less than
  \<open>2^53\<close>. On such a table the rational sums of the model are the sums the code computes.
\<close>

definition exact_amounts :: "table \<Rightarrow> bool" where
  "exact_amounts t =
     (list_all (\<lambda>v. of_int \<lfloor>v\<rfloor> = v) (present (map sales t))
      \<and> sum_list (map abs (present (map sales t))) < 2 ^ 53)"

text \<open>A cleaned table: no row lacks a required cell, and every date is a timestamp.\<close>

definition cleaned :: "table \<Rightarrow> bool" where
  "cleaned t = list_all (\<lambda>r. notna_subset r \<and> is_stamp (order_date r)) t"



section \<open>Cleaning\<close>

lemma to_datetime_not_text: "to_datetime parse c \<noteq> Text s"
  by (cases c) (auto split: option.splits)

lemma to_datetime_stamp_iff: "to_datetime parse c \<noteq> Missing \<longleftrightarrow> parseable parse c"
  by (cases c) (auto split: option.splits)

lemma to_datetime_is_stamp: "is_stamp (to_datetime parse c) \<longleftrightarrow> parseable parse c"
  by (cases c) (auto split: option.splits)

lemma notna_coerce: "notna_subset (coerce_date parse r) \<longleftrightarrow> survives parse r"
  by (simp add: notna_subset_def coerce_date_def survives_def to_datetime_stamp_iff)

lemma cleaned_table_eq:
  "cleaned_table parse df w = dropna (map (coerce_date parse) (frames w df))"
  by (simp add: cleaned_table_def clean_data_def Let_def)

lemma dropna_coerce:
  "dropna (map (coerce_date parse) t) = map (coerce_date parse) (filter (survives parse) t)"
  by (induction t) (simp_all add: dropna_def notna_coerce)

text \<open>
  C5. Every row of the table \<open>clean_data\<close> returns has an order id, a parsed date and a
  sales amount. The returned rows are exactly the input rows with all three present and
  a date that parses, so a row whose date fails to parse is dropped like a row with a
  missing cell; \<open>clean_data\<close> has no error outcome.
\<close>

theorem clean_data_rows_complete:
  "(\<forall>r \<in> set (cleaned_table parse df w).
      order_id r \<noteq> None \<and> is_stamp (order_date r) \<and> sales r \<noteq> None)
   \<and> cleaned_table parse df w = map (coerce_date parse) (filter (survives parse) (frames w df))"
proof -
  have eq: "cleaned_table parse df w = map (coerce_date parse) (filter (survives parse) (frames w df))"
    by (simp add: cleaned_table_eq dropna_coerce)
  have "order_id (coerce_date parse r) \<noteq> None \<and> is_stamp (order_date (coerce_date parse r))
          \<and> sales (coerce_date parse r) \<noteq> None" if "survives parse r" for r
    using that by (simp add: survives_def coerce_date_def to_datetime_is_stamp)
  with eq show ?thesis by auto
qed

lemma scenario_cleaned: "cleaned_table scenario_parse 0 (world_of scenario_raw) = scenario_clean"
  by (simp add: cleaned_table_eq world_of_def scenario_raw_def scenario_clean_def
      scenario_parse_def dropna_def notna_subset_def coerce_date_def)

theorem clean_data_rows_complete_witness:
  "list_all (\<lambda>r. order_id r \<noteq> None \<and> is_stamp (order_date r) \<and> sales r \<noteq> None) scenario_clean
   \<and> cleaned_table scenario_parse 0 (world_of scenario_raw) = scenario_clean
   \<and> length (frames (world_of scenario_raw) 0) = 5 \<and> length scenario_clean = 3"
proof -
  have rows: "list_all (\<lambda>r. order_id r \<noteq> None \<and> is_stamp (order_date r) \<and> sales r \<noteq> None) scenario_clean"
    using clean_data_rows_complete [of scenario_parse 0 "world_of scenario_raw"]
    by (simp add: scenario_cleaned list_all_iff)
  have sizes: "length (frames (world_of scenario_raw) 0) = 5 \<and> length scenario_clean = 3"
    by (simp add: world_of_def scenario_raw_def scenario_clean_def)
  from rows sizes scenario_cleaned show ?thesis by simp
qed

section \<open>Frame of clean\_data\<close>

lemma coerce_date_fields:
  "order_id (coerce_date parse r) = order_id r"
  "product (coerce_date parse r) = product r"
  "sales (coerce_date parse r) = sales r"
  "order_date (coerce_date parse r) = to_datetime parse (order_date r)"
  by (simp_all add: coerce_date_def)

lemma clean_data_result:
  assumes "df < next_ref w"
  shows "clean_data parse df w =
          (next_ref w,
           w\<lparr>frames := (frames w)(df := map (coerce_date parse) (frames w df),
                                    next_ref w := dropna (map (coerce_date parse) (frames w df))),
             next_ref := Suc (next_ref w)\<rparr>)"
  using assms by (simp add: clean_data_def Let_def)

text \<open>
  C10. \<open>clean_data\<close> writes the parsed dates into the caller's table (a date that does
  not parse becomes missing, every other field and the number of rows stay), and returns
  a different table: the rows of the coerced table without a missing cell, in their
  original order, which are the surviving input rows with only the date replaced.
\<close>

theorem clean_data_mutates_argument:
  assumes "df < next_ref w"
  shows "case clean_data parse df w of (new, w') \<Rightarrow>
           new \<noteq> df
         \<and> frames w' df = map (coerce_date parse) (frames w df)
         \<and> map order_date (frames w' df) = map (\<lambda>r. to_datetime parse (order_date r)) (frames w df)
         \<and> map order_id (frames w' df) = map order_id (frames w df)
         \<and> map product (frames w' df) = map product (frames w df)
         \<and> map sales (frames w' df) = map sales (frames w df)
         \<and> frames w' new = filter notna_subset (frames w' df)
         \<and> frames w' new = map (coerce_date parse) (filter (survives parse) (frames w df))
         \<and> map order_id (frames w' new) = map order_id (filter (survives parse) (frames w df))
         \<and> map product (frames w' new) = map product (filter (survives parse) (frames w df))
         \<and> map sales (frames w' new) = map sales (filter (survives parse) (frames w df))"
proof -
  have ne: "next_ref w \<noteq> df" using assms by simp
  have kept: "dropna (map (coerce_date parse) (frames w df))
                = map (coerce_date parse) (filter (survives parse) (frames w df))"
    by (rule dropna_coerce)
  show ?thesis
    unfolding clean_data_result [OF assms] using ne
    by (simp add: kept coerce_date_fields comp_def) (simp add: kept [symmetric] dropna_def)
qed

theorem clean_data_mutates_argument_witness:
  "fst (clean_data scenario_parse 0 (world_of scenario_raw)) = 1
   \<and> length (frames (snd (clean_data scenario_parse 0 (world_of scenario_raw))) 0) = 5
   \<and> map order_date (frames (snd (clean_data scenario_parse 0 (world_of scenario_raw))) 0)
       = [Stamp 19723, Stamp 19724, Stamp 19724, Stamp 19730, Missing]
   \<and> frames (snd (clean_data scenario_parse 0 (world_of scenario_raw))) 1 = scenario_clean"
proof -
  have alloc: "0 < next_ref (world_of scenario_raw)"
    by (simp add: world_of_def)
  have new: "fst (clean_data scenario_parse 0 (world_of scenario_raw)) = 1"
    by (simp add: clean_data_def Let_def world_of_def)
  have raw: "map (\<lambda>r. to_datetime scenario_parse (order_date r)) (frames (world_of scenario_raw) 0)
              = [Stamp 19723, Stamp 19724, Stamp 19724, Stamp 19730, Missing]"
    by (simp add: world_of_def scenario_raw_def scenario_parse_def)
  have kept: "map (coerce_date scenario_parse) (filter (survives scenario_parse) (frames (world_of scenario_raw) 0))
              = scenario_clean"
    by (simp add: world_of_def scenario_raw_def scenario_clean_def scenario_parse_def
        survives_def coerce_date_def)
  have len: "length (frames (world_of scenario_raw) 0) = 5"
    by (simp add: world_of_def scenario_raw_def)
  note frame = clean_data_mutates_argument [OF alloc, of scenario_parse, unfolded case_prod_unfold new]
  from frame have "frames (snd (clean_data scenario_parse 0 (world_of scenario_raw))) 0
                     = map (coerce_date scenario_parse) (frames (world_of scenario_raw) 0)"
    by blast
  then have l: "length (frames (snd (clean_data scenario_parse 0 (world_of scenario_raw))) 0) = 5"
    using len by simp
  from frame have d: "map order_date (frames (snd (clean_data scenario_parse 0 (world_of scenario_raw))) 0)
                     = map (\<lambda>r. to_datetime scenario_parse (order_date r)) (frames (world_of scenario_raw) 0)"
    by blast
  from frame have r: "frames (snd (clean_data scenario_parse 0 (world_of scenario_raw))) 1
                     = map (coerce_date scenario_parse) (filter (survives scenario_parse) (frames (world_of scenario_raw) 0))"
    by blast
  from new l d r raw kept show ?thesis by simp
qed

section \<open>Effects of generate\_visuals\<close>



lemma generate_visuals_frames:
  "frames (snd (generate_visuals df d w)) =
     (if d = [] then frames w else (frames w)(next_ref w := frames w df))"
  by (simp add: generate_visuals_def makedirs_def set_index_def savefig_def Let_def
      split: sum.splits)





lemma set_present: "set (present xs) = {k. Some k \<in> set xs}"
  by (induction xs) (auto simp add: present_def List.map_filter_simps split: option.splits)

lemma set_group_keys: "set (group_keys t) = {k. Some k \<in> product ` set t}"
  by (simp add: group_keys_def set_present)


text \<open>
  C9. \<open>calculate_kpis\<close> leaves the whole state as it was, and \<open>generate_visuals\<close>
  leaves every existing DataFrame as it was, whether it returns or raises (it only adds
  the re-indexed copy): the table either one is given has the same rows, in the same
  order, with the same values afterwards.
\<close>

theorem kpis_and_visuals_read_only:
  assumes "ref < next_ref w"
  shows "snd (calculate_kpis qs df w) = w
       \<and> frames (snd (calculate_kpis qs df w)) ref = frames w ref
       \<and> frames (snd (generate_visuals df d w)) ref = frames w ref"
  using assms by (simp add: calculate_kpis_def generate_visuals_frames)

theorem kpis_and_visuals_read_only_witness:
  "frames (snd (calculate_kpis (sort_key snd) 0 (world_of scenario_clean))) 0 = scenario_clean
   \<and> frames (snd (generate_visuals 0 ''output/charts'' (world_of scenario_clean))) 0 = scenario_clean"
proof -
  have alloc: "0 < next_ref (world_of scenario_clean)"
    by (simp add: world_of_def)
  have "frames (world_of scenario_clean) 0 = scenario_clean"
    by (simp add: world_of_def)
  with kpis_and_visuals_read_only [OF alloc, of "sort_key snd" 0 "''output/charts''"] show ?thesis
    by simp
qed







text \<open>
  C4. The empty table is a cleaned table. On it \<open>calculate_kpis\<close> returns total sales
  0, no average, no orders and an empty breakdown, but \<open>generate_visuals\<close> raises at the
  line plot of the empty weekly series and writes neither chart.
\<close>

theorem empty_table_visuals_raise:
  "cleaned []
   \<and> fst (calculate_kpis (sort_key snd) 0 (world_of []))
       = \<lparr>total_sales = 0, avg_order_value = None, num_orders = 0, sales_by_product = []\<rparr>
   \<and> fst (generate_visuals 0 ''output/charts'' (world_of [])) = Inl ValueError
   \<and> files (snd (generate_visuals 0 ''output/charts'' (world_of []))) ''output/charts/weekly_sales.png''
       = None
   \<and> files (snd (generate_visuals 0 ''output/charts'' (world_of []))) ''output/charts/top_products.png''
       = None"
  by (simp add: cleaned_def generate_visuals_def makedirs_def set_index_def resample_W_sum_def
        week_bins_def stamps_def List.map_filter_simps plot_line_def world_of_def
        calculate_kpis_def kpis_of_def series_sum_def series_mean_def nunique_def present_def
        sort_values_desc_def groupby_product_sum_def group_keys_def)

section \<open>Layout of the workbook\<close>




lemma scenario_kpis:
  "kpis_of (sort_key snd) scenario_clean =
     \<lparr>total_sales = 350, avg_order_value = Some (350 / 3), num_orders = 3,
      sales_by_product = [(''Gadget'', 200), (''Widget'', 150)]\<rparr>"
  by code_simp






section \<open>The figures of calculate\_kpis\<close>

lemma series_sum_Nil: "series_sum [] = 0"
  by (simp add: series_sum_def present_def List.map_filter_simps)

lemma series_sum_Cons:
  "series_sum (x # xs) = (case x of None \<Rightarrow> 0 | Some v \<Rightarrow> v) + series_sum xs"
  by (cases x) (simp_all add: series_sum_def present_def List.map_filter_simps)

lemma avg_order_value_per_row:
  "present (map sales t) \<noteq> [] \<Longrightarrow>
     avg_order_value (kpis_of qs t)
       = Some (total_sales (kpis_of qs t) / of_nat (length (present (map sales t))))"
  by (simp add: kpis_of_def series_mean_def series_sum_def)

lemma shared_id_figures:
  "series_sum (map sales shared_id_table) = 150"
  "series_mean (map sales shared_id_table) = Some 75"
  "nunique (map order_id shared_id_table) = 1"
  by code_simp+

text \<open>
  C1. On two cleaned rows of one order (sales 100 and 50) \<open>calculate_kpis\<close> reports
  total sales 150 and one order, and an average order value of 75, the mean over the
  rows, which is not total sales over the number of orders.
\<close>

theorem avg_order_value_shared_order_id:
  "total_sales (fst (calculate_kpis qs 0 (world_of shared_id_table))) = 150
   \<and> num_orders (fst (calculate_kpis qs 0 (world_of shared_id_table))) = 1
   \<and> avg_order_value (fst (calculate_kpis qs 0 (world_of shared_id_table))) = Some 75
   \<and> avg_order_value (fst (calculate_kpis qs 0 (world_of shared_id_table)))
       \<noteq> Some (total_sales (fst (calculate_kpis qs 0 (world_of shared_id_table)))
                / of_nat (num_orders (fst (calculate_kpis qs 0 (world_of shared_id_table)))))"
  by (simp add: calculate_kpis_def world_of_def kpis_of_def shared_id_figures)

section \<open>The breakdown by product\<close>

lemma group_sum_Nil: "group_sum [] k = 0"
  by (simp add: group_sum_def series_sum_Nil)

lemma group_sum_Cons:
  "group_sum (r # t) =
     (\<lambda>k. (if product r = Some k then (case sales r of None \<Rightarrow> 0 | Some v \<Rightarrow> v) else 0)
          + group_sum t k)"
  by (rule ext) (simp add: group_sum_def series_sum_Cons)

lemma sum_list_single_key:
  "distinct ks \<Longrightarrow>
     sum_list (map (\<lambda>k. if p = Some k then (a::rat) else 0) ks) = (if p \<in> Some ` set ks then a else 0)"
  by (induction ks) auto

lemma sum_group_sums:
  "distinct ks \<Longrightarrow>
     sum_list (map (group_sum t) ks)
       = series_sum (map sales (filter (\<lambda>r. product r \<in> Some ` set ks) t))"
proof (induction t)
  case Nil
  then show ?case by (simp add: group_sum_Nil series_sum_Nil)
next
  case (Cons r t)
  have "sum_list (map (group_sum (r # t)) ks)
          = sum_list (map (\<lambda>k. if product r = Some k
                                then (case sales r of None \<Rightarrow> 0 | Some v \<Rightarrow> v) else 0) ks)
            + sum_list (map (group_sum t) ks)"
    by (simp add: group_sum_Cons sum_list_addf)
  with Cons show ?case
    by (simp add: sum_list_single_key series_sum_Cons)
qed

lemma distinct_group_keys: "distinct (group_keys t)"
  by (simp add: group_keys_def)

lemma sum_groupby:
  "sum_list (map snd (groupby_product_sum t))
     = series_sum (map sales (filter (\<lambda>r. product r \<noteq> None) t))"
proof -
  have "filter (\<lambda>r. product r \<in> Some ` set (group_keys t)) t = filter (\<lambda>r. product r \<noteq> None) t"
  proof (rule filter_cong)
    fix r assume "r \<in> set t"
    show "(product r \<in> Some ` set (group_keys t)) = (product r \<noteq> None)"
    proof (cases "product r")
      case None
      then show ?thesis by auto
    next
      case (Some a)
      with \<open>r \<in> set t\<close> have "Some a \<in> product ` set t"
        by (metis imageI)
      then have "a \<in> set (group_keys t)"
        by (simp add: set_group_keys)
      with Some show ?thesis by simp
    qed
  qed simp
  then show ?thesis
    using sum_group_sums [OF distinct_group_keys, of t t]
    by (simp add: groupby_product_sum_def comp_def)
qed

lemma sum_sort_values_desc:
  assumes "\<And>xs. mset (qs xs) = mset xs"
  shows "sum_list (map snd (sort_values_desc qs s)) = sum_list (map snd s)"
proof -
  have "mset (sort_values_desc qs s) = mset s"
    by (simp add: sort_values_desc_def assms)
  then have "mset (map snd (sort_values_desc qs s)) = mset (map snd s)"
    by simp
  then show ?thesis by (metis sum_mset_sum_list)
qed

lemma no_product_figures:
  "series_sum (map sales no_product_table) = 150"
  "sort_values_desc (sort_key snd) (groupby_product_sum no_product_table) = [(''Widget'', 100)]"
  "exact_amounts no_product_table"
  "cleaned no_product_table"
  by code_simp+

text \<open>
  C2, as stated, fails: in a cleaned table with a row that has no product (sales 50)
  beside a Widget row (sales 100), the breakdown holds Widget alone and sums to 100,
  while total sales are 150. (The amounts are small integers: no rounding is involved.)
\<close>

theorem sales_by_product_sum_counterexample:
  "cleaned no_product_table
   \<and> exact_amounts no_product_table
   \<and> sales_by_product (fst (calculate_kpis (sort_key snd) 0 (world_of no_product_table)))
       = [(''Widget'', 100)]
   \<and> total_sales (fst (calculate_kpis (sort_key snd) 0 (world_of no_product_table))) = 150
   \<and> sum_list (map snd (sales_by_product (fst (calculate_kpis (sort_key snd) 0 (world_of no_product_table)))))
       \<noteq> total_sales (fst (calculate_kpis (sort_key snd) 0 (world_of no_product_table)))"
  by (simp add: calculate_kpis_def world_of_def kpis_of_def no_product_figures)

text \<open>
  C2, amended. On a table whose amounts add up exactly (integers with a sum of absolute
  values below \<open>2^53\<close>), the values of \<open>sales_by_product\<close> sum to the sales of the rows
  that have a product; a row without a product is in no group. When every row has a
  product, the sum is \<open>total_sales\<close>. The library sort enters only as a rearrangement.
\<close>

theorem sales_by_product_sum:
  assumes "\<And>xs. mset (qs xs) = mset xs" and "exact_amounts (frames w df)"
  shows "sum_list (map snd (sales_by_product (fst (calculate_kpis qs df w))))
           = series_sum (map sales (filter (\<lambda>r. product r \<noteq> None) (frames w df)))
       \<and> ((\<forall>r \<in> set (frames w df). product r \<noteq> None) \<longrightarrow>
            sum_list (map snd (sales_by_product (fst (calculate_kpis qs df w))))
              = total_sales (fst (calculate_kpis qs df w)))"
proof -
  have part: "sum_list (map snd (sales_by_product (fst (calculate_kpis qs df w))))
     = series_sum (map sales (filter (\<lambda>r. product r \<noteq> None) (frames w df)))"
    by (simp add: calculate_kpis_def kpis_of_def sum_sort_values_desc [OF assms(1)] sum_groupby)
  have "filter (\<lambda>r. product r \<noteq> None) (frames w df) = frames w df"
    if "\<forall>r \<in> set (frames w df). product r \<noteq> None"
    using that by (simp add: filter_id_conv)
  with part show ?thesis
    by (simp add: calculate_kpis_def kpis_of_def)
qed

lemma scenario_exact: "exact_amounts scenario_clean"
  by code_simp

theorem sales_by_product_sum_witness:
  "exact_amounts scenario_clean
   \<and> list_all (\<lambda>r. product r \<noteq> None) scenario_clean
   \<and> sum_list (map snd (sales_by_product (fst (calculate_kpis (sort_key snd) 0 (world_of scenario_clean))))) = 350
   \<and> total_sales (fst (calculate_kpis (sort_key snd) 0 (world_of scenario_clean))) = 350"
proof -
  have tbl: "frames (world_of scenario_clean) 0 = scenario_clean"
    by (simp add: world_of_def)
  have perm: "\<And>xs :: (string \<times> rat) list. mset (sort_key snd xs) = mset xs"
    by simp
  have exact: "exact_amounts (frames (world_of scenario_clean) 0)"
    by (simp add: tbl scenario_exact)
  have all: "\<forall>r \<in> set (frames (world_of scenario_clean) 0). product r \<noteq> None"
    by (simp add: tbl) (simp add: scenario_clean_def)
  have total: "total_sales (fst (calculate_kpis (sort_key snd) 0 (world_of scenario_clean))) = 350"
    by (simp add: calculate_kpis_def tbl scenario_kpis)
  from sales_by_product_sum [OF perm exact] all
  have "sum_list (map snd (sales_by_product (fst (calculate_kpis (sort_key snd) 0 (world_of scenario_clean)))))
          = total_sales (fst (calculate_kpis (sort_key snd) 0 (world_of scenario_clean)))"
    by blast
  with total all scenario_exact show ?thesis
    by (simp add: tbl list_all_iff)
qed

section \<open>The order of the breakdown\<close>














section \<open>Determinism\<close>





end
